theory Spec2Isabelle
  imports Main "HOL-Library.Word"
begin

section \<open>Configuration constants (VwireConfig.h, Vwire.h)\<close>

text \<open>
  The board is chosen by the preprocessor; the only constant of the core that depends on it
  is the size of the payload buffer.
\<close>

datatype board = ESP32 | ESP8266 | RP2040 | SAMD | Generic

fun VWIRE_MAX_PAYLOAD_LENGTH :: "board \<Rightarrow> nat" where
  "VWIRE_MAX_PAYLOAD_LENGTH ESP32 = 2048"
| "VWIRE_MAX_PAYLOAD_LENGTH ESP8266 = 1024"
| "VWIRE_MAX_PAYLOAD_LENGTH RP2040 = 1024"
| "VWIRE_MAX_PAYLOAD_LENGTH SAMD = 512"
| "VWIRE_MAX_PAYLOAD_LENGTH Generic = 512"

definition VWIRE_MAX_VIRTUAL_PINS :: int where
  "VWIRE_MAX_VIRTUAL_PINS = 128"

definition VWIRE_MAX_HANDLERS :: nat where
  "VWIRE_MAX_HANDLERS = 32"

definition VWIRE_MAX_AUTO_HANDLERS :: nat where
  "VWIRE_MAX_AUTO_HANDLERS = 32"

definition VWIRE_MAX_TOKEN_LENGTH :: nat where
  "VWIRE_MAX_TOKEN_LENGTH = 64"

definition VWIRE_MAX_SERVER_LENGTH :: nat where
  "VWIRE_MAX_SERVER_LENGTH = 64"

datatype VwireTransport = VWIRE_TRANSPORT_TCP | VWIRE_TRANSPORT_TCP_SSL

datatype VwireState =
    VWIRE_STATE_IDLE
  | VWIRE_STATE_CONNECTING_WIFI
  | VWIRE_STATE_CONNECTING_MQTT
  | VWIRE_STATE_CONNECTED
  | VWIRE_STATE_DISCONNECTED
  | VWIRE_STATE_ERROR

datatype VwireError =
    VWIRE_ERR_NONE
  | VWIRE_ERR_NO_TOKEN
  | VWIRE_ERR_WIFI_FAILED
  | VWIRE_ERR_MQTT_FAILED
  | VWIRE_ERR_NOT_CONNECTED
  | VWIRE_ERR_INVALID_PIN
  | VWIRE_ERR_BUFFER_FULL
  | VWIRE_ERR_HANDLER_FULL
  | VWIRE_ERR_TIMEOUT
  | VWIRE_ERR_SSL_FAILED

section \<open>Data model\<close>

text \<open>
  \<open>uint8_t\<close>, \<open>uint16_t\<close> and \<open>unsigned long\<close> (32 bits on every supported board) are
  words, so that \<open>now - _lastHeartbeat\<close> wraps as it does in C. A C string is a
  \<open>string\<close> without the terminating NUL. A callback is a function pointer: \<open>None\<close> is
  \<open>nullptr\<close>, \<open>Some k\<close> the address of the host's function number \<open>k\<close>.
\<close>

type_synonym u8 = "8 word"
type_synonym u16 = "16 word"
type_synonym u32 = "32 word"

type_synonym PinHandler = "nat option"
type_synonym ConnectionHandler = "nat option"
type_synonym RawMessageHandler = "nat option"

record VwireSettings =
  authToken :: string
  server :: string
  port :: u16
  transport :: VwireTransport
  autoReconnect :: bool
  reconnectInterval :: u32
  heartbeatInterval :: u32
  wifiTimeout :: u32
  mqttTimeout :: u32
  dataQoS :: u8
  dataRetain :: bool

text \<open>\<open>struct PinHandlerEntry\<close> of \<open>VwireClass\<close>.\<close>

record PinHandlerEntry =
  pin :: u8
  handler :: PinHandler
  active :: bool

text \<open>\<open>struct VwireAutoHandler\<close>; its fields \<open>pin\<close> and \<open>handler\<close> carry a prefix here.\<close>

record VwireAutoHandler =
  auto_pin :: u8
  auto_handler :: PinHandler

text \<open>
  What the library does to its collaborators, in the order it does it: the calls on the
  transport (\<open>PubSubClient\<close>) and the calls of the host's callbacks. The transport and the
  callbacks are not part of the library; each call is recorded, and each answer of the
  transport is an input of the operation that asks for it.
\<close>

datatype event =
    MqttConnect string string string string nat bool string
  | MqttPublish string string bool
  | MqttSubscribe string
  | MqttDisconnect
  | PinHandlerCall nat string
  | ConnectionHandlerCall nat
  | RawMessageHandlerCall nat string string

text \<open>
  The members of \<open>VwireClass\<close> that the connection, scheduling and dispatch code reads or
  writes, the globals of the auto-registration system, and the record of calls. The two
  handler arrays keep their fixed size; only the entries below the count are ever read.
\<close>

record vwire =
  settings :: VwireSettings
  state :: VwireState
  lastError :: VwireError
  deviceId :: string
  startTime :: u32
  lastHeartbeat :: u32
  lastReconnectAttempt :: u32
  pinHandlers :: "PinHandlerEntry list"
  pinHandlerCount :: int
  connectHandler :: ConnectionHandler
  disconnectHandler :: ConnectionHandler
  messageHandler :: RawMessageHandler
  vwireAutoWriteHandlers :: "VwireAutoHandler list"
  vwireAutoWriteCount :: u8
  vwireAutoConnectHandler :: ConnectionHandler
  vwireAutoDisconnectHandler :: ConnectionHandler
  trace :: "event list"

definition emit :: "event \<Rightarrow> vwire \<Rightarrow> vwire" where
  "emit ev s = s\<lparr>trace := trace s @ [ev]\<rparr>"

text \<open>\<open>if (h) h();\<close> for a connection callback.\<close>

definition callConnectionHandler :: "ConnectionHandler \<Rightarrow> vwire \<Rightarrow> vwire" where
  "callConnectionHandler h s = (case h of None \<Rightarrow> s | Some f \<Rightarrow> emit (ConnectionHandlerCall f) s)"

definition setError :: "VwireError \<Rightarrow> vwire \<Rightarrow> vwire" where
  "setError err s = s\<lparr>lastError := err\<rparr>"

section \<open>Handler registry\<close>

text \<open>
  \<open>_vwireRegisterWriteHandler\<close>: the declarative registration behind \<open>VWIRE_WRITE\<close>.
\<close>

definition vwireRegisterWriteHandler :: "u8 \<Rightarrow> PinHandler \<Rightarrow> vwire \<Rightarrow> vwire" where
  "vwireRegisterWriteHandler p h s =
     (if unat (vwireAutoWriteCount s) < VWIRE_MAX_AUTO_HANDLERS then
        s\<lparr>vwireAutoWriteHandlers :=
             (vwireAutoWriteHandlers s)[unat (vwireAutoWriteCount s) :=
                \<lparr>auto_pin = p, auto_handler = h\<rparr>],
          vwireAutoWriteCount := vwireAutoWriteCount s + 1\<rparr>
      else s)"

definition vwireRegisterConnectHandler :: "ConnectionHandler \<Rightarrow> vwire \<Rightarrow> vwire" where
  "vwireRegisterConnectHandler h s = s\<lparr>vwireAutoConnectHandler := h\<rparr>"

definition vwireRegisterDisconnectHandler :: "ConnectionHandler \<Rightarrow> vwire \<Rightarrow> vwire" where
  "vwireRegisterDisconnectHandler h s = s\<lparr>vwireAutoDisconnectHandler := h\<rparr>"

text \<open>
  \<open>VwireClass::onVirtualWrite\<close>: the explicit registration. The count starts at 0 and
  only this function changes it, so it is never negative and the index is inside the array.
\<close>

definition onVirtualWrite :: "u8 \<Rightarrow> PinHandler \<Rightarrow> vwire \<Rightarrow> vwire" where
  "onVirtualWrite p h s =
     (if pinHandlerCount s \<ge> int VWIRE_MAX_HANDLERS then
        setError VWIRE_ERR_HANDLER_FULL s
      else
        s\<lparr>pinHandlers :=
             (pinHandlers s)[nat (pinHandlerCount s) :=
                \<lparr>pin = p, handler = h, active = True\<rparr>],
          pinHandlerCount := pinHandlerCount s + 1\<rparr>)"

definition onConnect :: "ConnectionHandler \<Rightarrow> vwire \<Rightarrow> vwire" where
  "onConnect h s = s\<lparr>connectHandler := h\<rparr>"

definition onDisconnect :: "ConnectionHandler \<Rightarrow> vwire \<Rightarrow> vwire" where
  "onDisconnect h s = s\<lparr>disconnectHandler := h\<rparr>"

definition onMessage :: "RawMessageHandler \<Rightarrow> vwire \<Rightarrow> vwire" where
  "onMessage h s = s\<lparr>messageHandler := h\<rparr>"

text \<open>
  The program before \<open>setup()\<close>: the zero-initialised globals and the members as the
  constructor of \<open>VwireClass\<close> and of \<open>VwireSettings\<close> leave them.
\<close>

definition VwireSettings_init :: VwireSettings where
  "VwireSettings_init =
     \<lparr>authToken = [], server = ''mqtt.vwire.io'', port = 8883,
      transport = VWIRE_TRANSPORT_TCP_SSL, autoReconnect = True,
      reconnectInterval = 5000, heartbeatInterval = 30000,
      wifiTimeout = 30000, mqttTimeout = 10000, dataQoS = 1, dataRetain = False\<rparr>"

definition VwireClass_init :: vwire where
  "VwireClass_init =
     \<lparr>settings = VwireSettings_init, state = VWIRE_STATE_IDLE, lastError = VWIRE_ERR_NONE,
      deviceId = [], startTime = 0, lastHeartbeat = 0, lastReconnectAttempt = 0,
      pinHandlers = replicate VWIRE_MAX_HANDLERS \<lparr>pin = 0, handler = None, active = False\<rparr>,
      pinHandlerCount = 0, connectHandler = None, disconnectHandler = None,
      messageHandler = None,
      vwireAutoWriteHandlers =
        replicate VWIRE_MAX_AUTO_HANDLERS \<lparr>auto_pin = 0, auto_handler = None\<rparr>,
      vwireAutoWriteCount = 0, vwireAutoConnectHandler = None,
      vwireAutoDisconnectHandler = None, trace = []\<rparr>"

text \<open>
  \<open>VwireClass::config(authToken, server, port)\<close>; each \<open>strncpy\<close> keeps at most
  the first 63 characters.
\<close>

definition config :: "string \<Rightarrow> string \<Rightarrow> u16 \<Rightarrow> vwire \<Rightarrow> vwire" where
  "config tok srv prt s =
     s\<lparr>settings := (settings s)
          \<lparr>authToken := take (VWIRE_MAX_TOKEN_LENGTH - 1) tok,
           server := take (VWIRE_MAX_SERVER_LENGTH - 1) srv,
           port := prt,
           transport := (if prt = 8883 \<or> prt = 443 then VWIRE_TRANSPORT_TCP_SSL
                         else VWIRE_TRANSPORT_TCP)\<rparr>,
       deviceId := take (VWIRE_MAX_TOKEN_LENGTH - 1) tok\<rparr>"

text \<open>The registrations that the static initialisers of the \<open>VWIRE_WRITE\<close> macros perform.\<close>

fun autoRegisterAll :: "(u8 \<times> PinHandler) list \<Rightarrow> vwire \<Rightarrow> vwire" where
  "autoRegisterAll [] s = s"
| "autoRegisterAll ((p, h) # rs) s = autoRegisterAll rs (vwireRegisterWriteHandler p h s)"

section \<open>Connection state machine\<close>

text \<open>\<open>VwireClass::connected\<close>; \<open>t\<close> is the answer of \<open>_mqttClient.connected()\<close>.\<close>

definition connected :: "vwire \<Rightarrow> bool \<Rightarrow> bool" where
  "connected s t = (state s = VWIRE_STATE_CONNECTED \<and> t)"

text \<open>
  \<open>snprintf(buf, n, ...)\<close> into a buffer of \<open>n\<close> bytes keeps the first \<open>n - 1\<close>
  characters of the formatted text.
\<close>

definition snprintf :: "nat \<Rightarrow> string \<Rightarrow> string" where
  "snprintf n str = take (n - 1) str"

text \<open>Decimal formatting, as \<open>String(int)\<close> and the conversions \<open>%lu\<close>, \<open>%d\<close> do it.\<close>

function show_nat :: "nat \<Rightarrow> string" where
  "show_nat n =
     (if n < 10 then [char_of (48 + n)]
      else show_nat (n div 10) @ [char_of (48 + n mod 10)])"
  by pat_completeness auto
termination
  by (relation "measure id") auto

declare show_nat.simps [simp del]

definition show_int :: "int \<Rightarrow> string" where
  "show_int i = (if i < 0 then CHR ''-'' # show_nat (nat (- i)) else show_nat (nat i))"

text \<open>\<open>VwireClass::_buildTopic(type, pin = -1)\<close>.\<close>

definition buildTopic :: "vwire \<Rightarrow> string \<Rightarrow> int \<Rightarrow> string" where
  "buildTopic s type p =
     ''vwire/'' @ deviceId s @ ''/'' @ type @ (if p \<ge> 0 then ''/'' @ show_int p else [])"

text \<open>
  \<open>VwireClass::_connectMQTT\<close>. \<open>ok\<close> is the answer of \<open>_mqttClient.connect(...)\<close> and
  \<open>t\<close> the value of \<open>millis()\<close> read for \<open>_startTime\<close>; neither is used when the token
  is empty.
\<close>

definition connectMQTT :: "bool \<Rightarrow> u32 \<Rightarrow> vwire \<Rightarrow> bool \<times> vwire" where
  \<open>connectMQTT ok t s =
     (if length (authToken (settings s)) = 0 then
        (False, setError VWIRE_ERR_NO_TOKEN s)
      else
        let s1 = s\<lparr>state := VWIRE_STATE_CONNECTING_MQTT\<rparr>;
            clientId = ''vwire-'' @ deviceId s1;
            willTopic = buildTopic s1 ''status'' (- 1);
            willMessage = ''{"status":"offline"}'';
            s2 = emit (MqttConnect clientId (authToken (settings s1)) (authToken (settings s1))
                         willTopic 1 True willMessage) s1
        in if ok then
             let s3 = s2\<lparr>state := VWIRE_STATE_CONNECTED\<rparr>;
                 s4 = emit (MqttPublish willTopic ''{"status":"online"}'' True) s3;
                 cmdTopic = buildTopic s4 ''cmd'' (- 1) @ ''/#'';
                 s5 = emit (MqttSubscribe cmdTopic) s4;
                 s6 = s5\<lparr>startTime := t\<rparr>;
                 s7 = callConnectionHandler (connectHandler s6) s6;
                 s8 = callConnectionHandler (vwireAutoConnectHandler s7) s7
             in (True, s8)
           else
             (False, (setError VWIRE_ERR_MQTT_FAILED s2)\<lparr>state := VWIRE_STATE_ERROR\<rparr>))\<close>

text \<open>\<open>VwireClass::disconnect\<close>; \<open>t\<close> is the answer of \<open>_mqttClient.connected()\<close>.\<close>

definition disconnect :: "bool \<Rightarrow> vwire \<Rightarrow> vwire" where
  \<open>disconnect t s =
     (let s1 = (if t then
                  let topic = snprintf 96 (''vwire/'' @ deviceId s @ ''/status'');
                      s' = emit (MqttPublish topic ''{"status":"offline"}'' True) s
                  in emit MqttDisconnect s'
                else s)
      in s1\<lparr>state := VWIRE_STATE_DISCONNECTED\<rparr>)\<close>

section \<open>Message router\<close>

text \<open>
  The C library's \<open>strstr\<close>: the rest of the haystack from the first occurrence of the
  needle on, or \<open>None\<close> for the null pointer.
\<close>

fun strstr :: "string \<Rightarrow> string \<Rightarrow> string option" where
  "strstr [] needle = (if needle = [] then Some [] else None)"
| "strstr (c # cs) needle =
     (if take (length needle) (c # cs) = needle then Some (c # cs) else strstr cs needle)"

text \<open>
  The C library's \<open>atoi\<close> (\<open>strtol\<close> in base 10): white space is skipped, one sign is
  accepted, then the longest run of decimal digits is read; without a digit the result is 0.
  A value that does not fit a 32-bit \<open>long\<close> is saturated, as the \<open>strtol\<close> of the
  boards' C library does.
\<close>

definition isspace :: "char \<Rightarrow> bool" where
  "isspace c = (c = CHR '' '' \<or> (9 \<le> (of_char c :: nat) \<and> (of_char c :: nat) \<le> 13))"

definition isdigit :: "char \<Rightarrow> bool" where
  "isdigit c = (48 \<le> (of_char c :: nat) \<and> (of_char c :: nat) \<le> 57)"

fun atoi_digits :: "int \<Rightarrow> string \<Rightarrow> int" where
  "atoi_digits acc [] = acc"
| "atoi_digits acc (c # cs) =
     (if isdigit c then atoi_digits (acc * 10 + (int (of_char c) - 48)) cs else acc)"

definition saturate_long :: "int \<Rightarrow> int" where
  "saturate_long i = max (- 2147483648) (min 2147483647 i)"

definition atoi :: "string \<Rightarrow> int" where
  "atoi str =
     (case dropWhile isspace str of
        [] \<Rightarrow> 0
      | c # cs \<Rightarrow>
          saturate_long
            (if c = CHR ''-'' then - atoi_digits 0 cs
             else if c = CHR ''+'' then atoi_digits 0 cs
             else atoi_digits 0 (c # cs)))"

text \<open>The content of a NUL-terminated buffer, read as a C string.\<close>

definition c_str :: "string \<Rightarrow> string" where
  "c_str buf = takeWhile (\<lambda>c. c \<noteq> CHR 0x00) buf"

text \<open>\<open>if (h) h(vpin);\<close> with \<open>vpin\<close> holding the payload.\<close>

definition callPinHandler :: "PinHandler \<Rightarrow> string \<Rightarrow> vwire \<Rightarrow> vwire" where
  "callPinHandler h v s = (case h of None \<Rightarrow> s | Some f \<Rightarrow> emit (PinHandlerCall f v) s)"

text \<open>
  The two scans at the end of \<open>VwireClass::_handleMessage\<close>, for a pin already found in
  range. Each \<open>for\<close> loop runs over the entries below the count of its array and
  returns at the first one that matches.
\<close>

definition explicitTable :: "vwire \<Rightarrow> PinHandlerEntry list" where
  "explicitTable s = take (nat (pinHandlerCount s)) (pinHandlers s)"

definition autoTable :: "vwire \<Rightarrow> VwireAutoHandler list" where
  "autoTable s = take (unat (vwireAutoWriteCount s)) (vwireAutoWriteHandlers s)"

definition dispatch :: "int \<Rightarrow> string \<Rightarrow> vwire \<Rightarrow> vwire" where
  "dispatch p v s =
     (case find (\<lambda>e. active e \<and> uint (pin e) = p) (explicitTable s) of
        Some e \<Rightarrow> callPinHandler (handler e) v s
      | None \<Rightarrow>
          (case find (\<lambda>e. uint (auto_pin e) = p) (autoTable s) of
             Some e \<Rightarrow> callPinHandler (auto_handler e) v s
           | None \<Rightarrow> s))"

text \<open>The pin number that \<open>_handleMessage\<close> reads from the text after \<open>/cmd/\<close>.\<close>

definition parsePin :: "string \<Rightarrow> int" where
  "parsePin pinStr =
     (case pinStr of
        [] \<Rightarrow> - 1
      | c # cs \<Rightarrow> if c = CHR ''V'' \<or> c = CHR ''v'' then atoi cs else atoi (c # cs))"

text \<open>
  \<open>VwireClass::_handleMessage(topic, payload, length)\<close>; the payload is the \<open>length\<close>
  bytes at \<open>payload\<close>.
\<close>

definition handleMessage :: "board \<Rightarrow> string \<Rightarrow> string \<Rightarrow> vwire \<Rightarrow> vwire" where
  "handleMessage b topic payload s =
     (let copyLen = min (VWIRE_MAX_PAYLOAD_LENGTH b - 1) (length payload);
          payloadStr = c_str (take copyLen payload);
          s1 = (case messageHandler s of
                  None \<Rightarrow> s
                | Some f \<Rightarrow> emit (RawMessageHandlerCall f topic payloadStr) s)
      in case strstr topic ''/cmd/'' of
           None \<Rightarrow> s1
         | Some cmdPos \<Rightarrow>
             let pinStr = drop 5 cmdPos
             in if pinStr = [] then s1
                else
                  let p = parsePin pinStr
                  in if p \<ge> 0 \<and> p < VWIRE_MAX_VIRTUAL_PINS then dispatch p payloadStr s1
                     else s1)"

section \<open>Reconnection and heartbeat scheduler\<close>

text \<open>
  What one call of \<open>run()\<close> reads from outside the library: the answers of the transport,
  of the network layer and of the clock, and the messages that \<open>_mqttClient.loop()\<close>
  hands to the callback during this call.
\<close>

record env =
  mqtt_connected :: bool
  inbound :: "(string \<times> string) list"
  millis :: u32
  hb_connected :: bool
  hb_millis :: u32
  freeHeap :: u32
  wifiRSSI :: int
  wifi_connected :: bool
  connect_ok :: bool
  connect_millis :: u32

text \<open>\<open>_mqttClient.loop()\<close>: every delivered message goes through \<open>_handleMessage\<close>.\<close>

fun mqtt_loop :: "board \<Rightarrow> (string \<times> string) list \<Rightarrow> vwire \<Rightarrow> vwire" where
  "mqtt_loop b [] s = s"
| "mqtt_loop b ((topic, payload) # ms) s = mqtt_loop b ms (handleMessage b topic payload s)"

text \<open>\<open>VwireClass::getUptime\<close>, with the value of \<open>millis()\<close> it reads.\<close>

definition getUptime :: "u32 \<Rightarrow> vwire \<Rightarrow> u32" where
  "getUptime t s = (t - startTime s) div 1000"

definition heartbeatTopic :: "vwire \<Rightarrow> string" where
  "heartbeatTopic s = snprintf 96 (''vwire/'' @ deviceId s @ ''/heartbeat'')"

text \<open>The text that \<open>_sendHeartbeat\<close> formats into its 96-byte buffer.\<close>

definition heartbeatBuffer :: "env \<Rightarrow> vwire \<Rightarrow> string" where
  \<open>heartbeatBuffer e s =
     snprintf 96
       (''{"uptime":'' @ show_nat (unat (getUptime (hb_millis e) s)) @
        '',"heap":'' @ show_nat (unat (freeHeap e)) @
        '',"rssi":'' @ show_int (wifiRSSI e) @ ''}'')\<close>

text \<open>\<open>VwireClass::_sendHeartbeat\<close>.\<close>

definition sendHeartbeat :: "env \<Rightarrow> vwire \<Rightarrow> vwire" where
  "sendHeartbeat e s =
     (if \<not> connected s (hb_connected e) then s
      else
        let topic = heartbeatTopic s;
            buffer = heartbeatBuffer e s
        in emit (MqttPublish topic buffer False) s)"

text \<open>The transition that \<open>run()\<close> makes when it finds a session lost.\<close>

definition detectDisconnect :: "vwire \<Rightarrow> vwire" where
  "detectDisconnect s =
     (if state s = VWIRE_STATE_CONNECTED then
        let s1 = s\<lparr>state := VWIRE_STATE_DISCONNECTED\<rparr>;
            s2 = callConnectionHandler (disconnectHandler s1) s1
        in callConnectionHandler (vwireAutoDisconnectHandler s2) s2
      else s)"

text \<open>
  \<open>VwireClass::run\<close>. \<open>yield()\<close> and the OTA hook do not touch the members modelled here.
\<close>

definition run :: "board \<Rightarrow> env \<Rightarrow> vwire \<Rightarrow> vwire" where
  "run b e s =
     (if mqtt_connected e then
        let s1 = mqtt_loop b (inbound e) s;
            now = millis e
        in if now - lastHeartbeat s1 \<ge> heartbeatInterval (settings s1)
           then sendHeartbeat e (s1\<lparr>lastHeartbeat := now\<rparr>)
           else s1
      else if \<not> wifi_connected e then detectDisconnect s
      else
        let s1 = detectDisconnect s
        in if autoReconnect (settings s1) then
             let now = millis e
             in if now - lastReconnectAttempt s1 \<ge> reconnectInterval (settings s1)
                then snd (connectMQTT (connect_ok e) (connect_millis e)
                            (s1\<lparr>lastReconnectAttempt := now\<rparr>))
                else s1
           else s1)"

text \<open>The host's \<open>loop()\<close>: one call of \<open>run()\<close> after the other.\<close>

fun polls :: "board \<Rightarrow> env list \<Rightarrow> vwire \<Rightarrow> vwire" where
  "polls b [] s = s"
| "polls b (e # es) s = polls b es (run b e s)"

section \<open>Observations on the record of calls\<close>

fun isPinHandlerCall :: "event \<Rightarrow> bool" where
  "isPinHandlerCall (PinHandlerCall f v) = True"
| "isPinHandlerCall _ = False"

fun isPublishTo :: "string \<Rightarrow> event \<Rightarrow> bool" where
  "isPublishTo topic (MqttPublish t p r) = (t = topic)"
| "isPublishTo topic _ = False"

fun isConnect :: "event \<Rightarrow> bool" where
  "isConnect (MqttConnect c u p wt wq wr wm) = True"
| "isConnect _ = False"

text \<open>The calls made between an earlier state and a later one.\<close>

definition newEvents :: "vwire \<Rightarrow> vwire \<Rightarrow> event list" where
  "newEvents s s' = drop (length (trace s)) (trace s')"

definition pinCalls :: "vwire \<Rightarrow> vwire \<Rightarrow> event list" where
  "pinCalls s s' = filter isPinHandlerCall (newEvents s s')"

definition heartbeats :: "vwire \<Rightarrow> nat" where
  "heartbeats s = length (filter (isPublishTo (heartbeatTopic s)) (trace s))"

definition connectCalls :: "vwire \<Rightarrow> nat" where
  "connectCalls s = length (filter isConnect (trace s))"

text \<open>What a pin callback sees: the buffer \<open>payloadStr\<close> of \<open>_handleMessage\<close>.\<close>

definition payloadStr :: "board \<Rightarrow> string \<Rightarrow> string" where
  "payloadStr b payload =
     c_str (take (min (VWIRE_MAX_PAYLOAD_LENGTH b - 1) (length payload)) payload)"

text \<open>The state in which \<open>_handleMessage\<close> starts to look at the topic.\<close>

definition afterRawHandler :: "board \<Rightarrow> string \<Rightarrow> string \<Rightarrow> vwire \<Rightarrow> vwire" where
  "afterRawHandler b topic payload s =
     (case messageHandler s of
        None \<Rightarrow> s
      | Some f \<Rightarrow> emit (RawMessageHandlerCall f topic (payloadStr b payload)) s)"


section \<open>Example devices\<close>

definition device :: vwire where
  "device = config ''tok'' ''host'' 1883 VwireClass_init"

definition online_device :: vwire where
  "online_device = snd (connectMQTT True 100 device)"

text \<open>The explicit registrations of a host's \<open>setup()\<close>, in order.\<close>

fun registerAll :: "(u8 \<times> PinHandler) list \<Rightarrow> vwire \<Rightarrow> vwire" where
  "registerAll [] s = s"
| "registerAll ((p, h) # rs) s = registerAll rs (onVirtualWrite p h s)"

text \<open>A device with 32 explicit handlers, and one with 32 declarative handlers.\<close>

definition full_device :: vwire where
  "full_device = registerAll (map (\<lambda>i. (of_nat i, Some i)) [0..<32]) device"

definition full_auto_device :: vwire where
  "full_auto_device = autoRegisterAll (map (\<lambda>i. (of_nat i, Some i)) [0..<32]) device"

text \<open>
  Devices with handlers: an explicit handler for channel 7 registered after a declarative
  one; a declarative handler for channel 7 beside an explicit one for channel 8; an explicit
  registration of \<open>nullptr\<close> for channel 7 beside a declarative handler; a handler for
  channel 0 in either table; a raw-message observer.
\<close>

definition order_device :: vwire where
  "order_device = onVirtualWrite 7 (Some 2) (vwireRegisterWriteHandler 7 (Some 4) device)"

definition auto_device :: vwire where
  "auto_device = vwireRegisterWriteHandler 7 (Some 4) (onVirtualWrite 8 (Some 2) device)"

definition null_device :: vwire where
  "null_device = vwireRegisterWriteHandler 7 (Some 4) (onVirtualWrite 7 None device)"



definition observed_device :: vwire where
  "observed_device = onMessage (Some 3) (onVirtualWrite 7 (Some 2) device)"

text \<open>
  What \<open>run()\<close> reads in a poll at time \<open>t\<close>: with the session up and the messages
  \<open>ms\<close> arriving, and with the session down, the network joined and a join attempt that
  would end as \<open>ok\<close> says.
\<close>

definition tick :: "u32 \<Rightarrow> (string \<times> string) list \<Rightarrow> env" where
  "tick t ms =
     \<lparr>mqtt_connected = True, inbound = ms, millis = t, hb_connected = True, hb_millis = t,
      freeHeap = 200000, wifiRSSI = - 60, wifi_connected = True, connect_ok = False,
      connect_millis = t\<rparr>"

definition outage :: "u32 \<Rightarrow> bool \<Rightarrow> env" where
  "outage t ok =
     \<lparr>mqtt_connected = False, inbound = [], millis = t, hb_connected = False, hb_millis = t,
      freeHeap = 200000, wifiRSSI = - 60, wifi_connected = True, connect_ok = ok,
      connect_millis = t\<rparr>"

text \<open>
  A device on which no token was ever configured, as \<open>_connectWiFi\<close> leaves it once the
  network is joined: \<open>begin(ssid, password)\<close> calls \<open>_connectMQTT\<close> in this state.
\<close>

definition joining_device :: vwire where
  "joining_device = VwireClass_init\<lparr>state := VWIRE_STATE_CONNECTING_WIFI\<rparr>"

section \<open>Verified properties\<close>

subsection \<open>Connection state query\<close>

text \<open>
  C1. For every state of the state machine and every answer \<open>t\<close> of the transport,
  \<open>connected()\<close> is true exactly when the state is \<open>Connected\<close> and the transport
  reports itself connected. So it is false in every other state even when the transport
  says connected, and false when the transport says disconnected even in state
  \<open>Connected\<close>.
\<close>

theorem connected_iff:
  "connected s t \<longleftrightarrow> state s = VWIRE_STATE_CONNECTED \<and> t"
  by (simp add: connected_def)

subsection \<open>Explicit registration\<close>

lemma full_device_count: "pinHandlerCount full_device = 32"
  by code_simp

lemma device_count: "pinHandlerCount device = 0 \<and> length (pinHandlers device) = 32"
  by (simp add: device_def config_def VwireClass_init_def VWIRE_MAX_HANDLERS_def)

text \<open>
  C7. With 32 entries in the explicit table, a further \<open>onVirtualWrite\<close> changes nothing
  but the last error, which becomes \<open>VWIRE_ERR_HANDLER_FULL\<close>: the array, the count and
  so the table are as before. Below capacity the entry is appended to the table, marked
  active, and the count grows by one.
\<close>

theorem onVirtualWrite_capacity:
  "(pinHandlerCount s \<ge> 32 \<longrightarrow>
      onVirtualWrite p h s = s\<lparr>lastError := VWIRE_ERR_HANDLER_FULL\<rparr>
      \<and> pinHandlers (onVirtualWrite p h s) = pinHandlers s
      \<and> pinHandlerCount (onVirtualWrite p h s) = pinHandlerCount s
      \<and> explicitTable (onVirtualWrite p h s) = explicitTable s
      \<and> lastError (onVirtualWrite p h s) = VWIRE_ERR_HANDLER_FULL)
   \<and> (0 \<le> pinHandlerCount s \<and> pinHandlerCount s < 32 \<and> length (pinHandlers s) = 32 \<longrightarrow>
      explicitTable (onVirtualWrite p h s) =
        explicitTable s @ [\<lparr>pin = p, handler = h, active = True\<rparr>]
      \<and> pinHandlerCount (onVirtualWrite p h s) = pinHandlerCount s + 1
      \<and> lastError (onVirtualWrite p h s) = lastError s)"
proof (intro conjI impI)
  assume full: "32 \<le> pinHandlerCount s"
  then show "onVirtualWrite p h s = s\<lparr>lastError := VWIRE_ERR_HANDLER_FULL\<rparr>"
    by (simp add: onVirtualWrite_def VWIRE_MAX_HANDLERS_def setError_def)
  then show "pinHandlers (onVirtualWrite p h s) = pinHandlers s"
    and "pinHandlerCount (onVirtualWrite p h s) = pinHandlerCount s"
    and "explicitTable (onVirtualWrite p h s) = explicitTable s"
    and "lastError (onVirtualWrite p h s) = VWIRE_ERR_HANDLER_FULL"
    by (simp_all add: explicitTable_def)
next
  assume below: "0 \<le> pinHandlerCount s \<and> pinHandlerCount s < 32 \<and> length (pinHandlers s) = 32"
  then have n: "nat (pinHandlerCount s) < length (pinHandlers s)" by linarith
  have suc: "nat (pinHandlerCount s + 1) = Suc (nat (pinHandlerCount s))"
    using below by (simp add: nat_add_distrib)
  show "explicitTable (onVirtualWrite p h s) =
        explicitTable s @ [\<lparr>pin = p, handler = h, active = True\<rparr>]"
    using below n
    by (simp add: onVirtualWrite_def VWIRE_MAX_HANDLERS_def explicitTable_def suc
        take_Suc_conv_app_nth)
  show "pinHandlerCount (onVirtualWrite p h s) = pinHandlerCount s + 1"
    using below by (simp add: onVirtualWrite_def VWIRE_MAX_HANDLERS_def)
  show "lastError (onVirtualWrite p h s) = lastError s"
    using below by (simp add: onVirtualWrite_def VWIRE_MAX_HANDLERS_def)
qed

theorem onVirtualWrite_capacity_witness:
  "pinHandlerCount full_device \<ge> 32
   \<and> onVirtualWrite 40 (Some 99) full_device = full_device\<lparr>lastError := VWIRE_ERR_HANDLER_FULL\<rparr>
   \<and> explicitTable (onVirtualWrite 40 (Some 99) full_device) = explicitTable full_device
   \<and> 0 \<le> pinHandlerCount device \<and> pinHandlerCount device < 32
   \<and> length (pinHandlers device) = 32
   \<and> explicitTable (onVirtualWrite 7 (Some 1) device) =
       explicitTable device @ [\<lparr>pin = 7, handler = Some 1, active = True\<rparr>]"
proof -
  have full: "pinHandlerCount full_device \<ge> 32"
    by (simp add: full_device_count)
  have below: "0 \<le> pinHandlerCount device \<and> pinHandlerCount device < 32
      \<and> length (pinHandlers device) = 32"
    by (simp add: device_count)
  from full below
    onVirtualWrite_capacity [of full_device 40 "Some 99"]
    onVirtualWrite_capacity [of device 7 "Some 1"]
  show ?thesis by blast
qed

subsection \<open>Declarative registration\<close>

lemma full_auto_device_count: "vwireAutoWriteCount full_auto_device = 32"
  by code_simp

lemma vwireRegisterWriteHandler_bound:
  "unat (vwireAutoWriteCount s) \<le> 32 \<Longrightarrow>
   unat (vwireAutoWriteCount (vwireRegisterWriteHandler p h s)) \<le> 32"
proof (cases "unat (vwireAutoWriteCount s) < 32")
  case True
  have "unat (vwireAutoWriteCount s + 1) \<le> unat (vwireAutoWriteCount s) + 1"
    by (simp add: unat_word_ariths)
  with True show ?thesis
    by (simp add: vwireRegisterWriteHandler_def VWIRE_MAX_AUTO_HANDLERS_def)
next
  case False
  assume "unat (vwireAutoWriteCount s) \<le> 32"
  with False show ?thesis
    by (simp add: vwireRegisterWriteHandler_def VWIRE_MAX_AUTO_HANDLERS_def)
qed

lemma autoRegisterAll_bound:
  "unat (vwireAutoWriteCount s) \<le> 32 \<Longrightarrow>
   unat (vwireAutoWriteCount (autoRegisterAll rs s)) \<le> 32"
proof (induction rs arbitrary: s)
  case Nil
  then show ?case by simp
next
  case (Cons r rs)
  obtain p h where r: "r = (p, h)" by (cases r)
  from Cons.prems have "unat (vwireAutoWriteCount (vwireRegisterWriteHandler p h s)) \<le> 32"
    by (rule vwireRegisterWriteHandler_bound)
  then show ?case
    unfolding r by (simp add: Cons.IH)
qed

text \<open>
  C10. With 32 entries in the declarative table, \<open>_vwireRegisterWriteHandler\<close> does
  nothing at all: no entry is written, the count stays, and no error is recorded, whereas
  \<open>onVirtualWrite\<close> on a full explicit table records \<open>VWIRE_ERR_HANDLER_FULL\<close>. The
  declarative count therefore never exceeds 32, whatever is registered.
\<close>

theorem vwireRegisterWriteHandler_full:
  "(unat (vwireAutoWriteCount s) \<ge> 32 \<longrightarrow>
      vwireRegisterWriteHandler p h s = s
      \<and> vwireAutoWriteHandlers (vwireRegisterWriteHandler p h s) = vwireAutoWriteHandlers s
      \<and> vwireAutoWriteCount (vwireRegisterWriteHandler p h s) = vwireAutoWriteCount s
      \<and> lastError (vwireRegisterWriteHandler p h s) = lastError s)
   \<and> (pinHandlerCount s \<ge> 32 \<longrightarrow>
        lastError (onVirtualWrite p h s) = VWIRE_ERR_HANDLER_FULL)
   \<and> (unat (vwireAutoWriteCount s) \<le> 32 \<longrightarrow>
        unat (vwireAutoWriteCount (autoRegisterAll rs s)) \<le> 32)
   \<and> unat (vwireAutoWriteCount (autoRegisterAll rs VwireClass_init)) \<le> 32"
proof (intro conjI impI)
  assume full: "32 \<le> unat (vwireAutoWriteCount s)"
  then show same: "vwireRegisterWriteHandler p h s = s"
    by (simp add: vwireRegisterWriteHandler_def VWIRE_MAX_AUTO_HANDLERS_def)
  show "vwireAutoWriteHandlers (vwireRegisterWriteHandler p h s) = vwireAutoWriteHandlers s"
    and "vwireAutoWriteCount (vwireRegisterWriteHandler p h s) = vwireAutoWriteCount s"
    and "lastError (vwireRegisterWriteHandler p h s) = lastError s"
    by (simp_all add: same)
next
  assume "32 \<le> pinHandlerCount s"
  then show "lastError (onVirtualWrite p h s) = VWIRE_ERR_HANDLER_FULL"
    by (simp add: onVirtualWrite_def VWIRE_MAX_HANDLERS_def setError_def)
next
  assume "unat (vwireAutoWriteCount s) \<le> 32"
  then show "unat (vwireAutoWriteCount (autoRegisterAll rs s)) \<le> 32"
    by (rule autoRegisterAll_bound)
next
  have "unat (vwireAutoWriteCount VwireClass_init) \<le> 32"
    by (simp add: VwireClass_init_def)
  then show "unat (vwireAutoWriteCount (autoRegisterAll rs VwireClass_init)) \<le> 32"
    by (rule autoRegisterAll_bound)
qed

theorem vwireRegisterWriteHandler_full_witness:
  "unat (vwireAutoWriteCount full_auto_device) \<ge> 32
   \<and> vwireRegisterWriteHandler 40 (Some 99) full_auto_device = full_auto_device
   \<and> pinHandlerCount full_device \<ge> 32
   \<and> lastError (onVirtualWrite 40 (Some 99) full_device) = VWIRE_ERR_HANDLER_FULL
   \<and> unat (vwireAutoWriteCount full_auto_device) \<le> 32
   \<and> unat (vwireAutoWriteCount
        (autoRegisterAll [(1, Some 1), (2, Some 2)] full_auto_device)) \<le> 32"
proof -
  have a: "unat (vwireAutoWriteCount full_auto_device) \<ge> 32"
    and b: "unat (vwireAutoWriteCount full_auto_device) \<le> 32"
    by (simp_all add: full_auto_device_count)
  have c: "pinHandlerCount full_device \<ge> 32"
    by (simp add: full_device_count)
  from a b c
    vwireRegisterWriteHandler_full [of full_auto_device 40 "Some 99" "[(1, Some 1), (2, Some 2)]"]
    vwireRegisterWriteHandler_full [of full_device 40 "Some 99" "[]"]
  show ?thesis by blast
qed

subsection \<open>Requested disconnect\<close>

text \<open>
  C3, as amended. \<open>disconnect()\<close> on a live session publishes the "offline" status with
  the retain flag set, then closes the transport; these are its only calls, so no disconnect
  callback runs. The state becomes \<open>Disconnected\<close>, also when there is no live session.
\<close>

theorem disconnect_live_session:
  \<open>newEvents s (disconnect True s) =
      [MqttPublish (snprintf 96 (''vwire/'' @ deviceId s @ ''/status''))
         ''{"status":"offline"}'' True,
       MqttDisconnect]
   \<and> (\<forall>f. ConnectionHandlerCall f \<notin> set (newEvents s (disconnect True s)))
   \<and> state (disconnect True s) = VWIRE_STATE_DISCONNECTED
   \<and> lastError (disconnect True s) = lastError s
   \<and> disconnect False s = s\<lparr>state := VWIRE_STATE_DISCONNECTED\<rparr>\<close>
  by (simp add: disconnect_def newEvents_def emit_def Let_def)

lemma device_id: "deviceId online_device = ''tok''"
  by (simp add: online_device_def connectMQTT_def device_def config_def
      VwireClass_init_def VwireSettings_init_def VWIRE_MAX_TOKEN_LENGTH_def
      callConnectionHandler_def emit_def Let_def)

text \<open>
  C3 as stated fails: the one message that \<open>disconnect()\<close> publishes is retained.
\<close>

theorem disconnect_publishes_retained:
  \<open>newEvents online_device (disconnect True online_device) =
      [MqttPublish ''vwire/tok/status'' ''{"status":"offline"}'' True, MqttDisconnect]\<close>
  by (simp add: disconnect_def newEvents_def emit_def Let_def device_id snprintf_def)

subsection \<open>Broker join without a token\<close>

lemma connectMQTT_empty_token:
  "authToken (settings s) = [] \<Longrightarrow>
     connectMQTT ok t s = (False, s\<lparr>lastError := VWIRE_ERR_NO_TOKEN\<rparr>)"
  by (simp add: connectMQTT_def setError_def)

lemma joining_device_token: "authToken (settings joining_device) = []"
  by (simp add: joining_device_def VwireClass_init_def VwireSettings_init_def)

text \<open>
  C4. A broker join without a token is to fail with \<open>NoToken\<close>, leave the transport
  alone, record the error and put the connection state to \<open>Error\<close>. The code does the
  first three and misses the last: on the device that \<open>begin(ssid, password)\<close> hands to
  \<open>_connectMQTT\<close> the join returns false, records \<open>VWIRE_ERR_NO_TOKEN\<close> and makes no
  call, but the state stays \<open>ConnectingWiFi\<close>, and later polls leave it there; on a fresh
  device it stays \<open>Idle\<close>. The other failure exit of the same function, a refused
  session with a token set, records its error and does set the state to \<open>Error\<close>.
\<close>

theorem connectMQTT_no_token_state_not_error:
  "authToken (settings joining_device) = []
   \<and> fst (connectMQTT True 5 joining_device) = False
   \<and> lastError (snd (connectMQTT True 5 joining_device)) = VWIRE_ERR_NO_TOKEN
   \<and> trace (snd (connectMQTT True 5 joining_device)) = trace joining_device
   \<and> state (snd (connectMQTT True 5 joining_device)) = VWIRE_STATE_CONNECTING_WIFI
   \<and> state (snd (connectMQTT True 5 joining_device)) \<noteq> VWIRE_STATE_ERROR
   \<and> state (polls ESP32 [outage 5000 True, outage 10000 True, outage 15000 True]
        (snd (connectMQTT True 5 joining_device))) = VWIRE_STATE_CONNECTING_WIFI
   \<and> state (snd (connectMQTT True 5 VwireClass_init)) = VWIRE_STATE_IDLE
   \<and> authToken (settings device) = ''tok''
   \<and> lastError (snd (connectMQTT False 5 device)) = VWIRE_ERR_MQTT_FAILED
   \<and> state (snd (connectMQTT False 5 device)) = VWIRE_STATE_ERROR"
proof -
  have a: "connectMQTT True 5 joining_device =
      (False, joining_device\<lparr>lastError := VWIRE_ERR_NO_TOKEN\<rparr>)"
    using joining_device_token by (rule connectMQTT_empty_token)
  have b: "state (polls ESP32 [outage 5000 True, outage 10000 True, outage 15000 True]
        (snd (connectMQTT True 5 joining_device))) = VWIRE_STATE_CONNECTING_WIFI"
    by code_simp
  have c: "state (snd (connectMQTT True 5 VwireClass_init)) = VWIRE_STATE_IDLE"
    by code_simp
  have d: "authToken (settings device) = ''tok''"
    "lastError (snd (connectMQTT False 5 device)) = VWIRE_ERR_MQTT_FAILED"
    "state (snd (connectMQTT False 5 device)) = VWIRE_STATE_ERROR"
    by code_simp+
  have e: "state joining_device = VWIRE_STATE_CONNECTING_WIFI"
    by (simp add: joining_device_def)
  from joining_device_token b c d e show ?thesis
    by (simp add: a)
qed

subsection \<open>Message routing\<close>



lemma afterRawHandler_fields [simp]:
  "explicitTable (afterRawHandler b topic payload s) = explicitTable s"
  "autoTable (afterRawHandler b topic payload s) = autoTable s"
  "lastError (afterRawHandler b topic payload s) = lastError s"
  by (simp_all add: afterRawHandler_def explicitTable_def autoTable_def emit_def
      split: option.splits)

lemma afterRawHandler_trace:
  "trace (afterRawHandler b topic payload s) =
     trace s @ (case messageHandler s of None \<Rightarrow> []
                | Some f \<Rightarrow> [RawMessageHandlerCall f topic (payloadStr b payload)])"
  by (simp add: afterRawHandler_def emit_def split: option.splits)

lemma newEvents_afterRawHandler:
  "newEvents s (afterRawHandler b topic payload s) =
     (case messageHandler s of None \<Rightarrow> []
      | Some f \<Rightarrow> [RawMessageHandlerCall f topic (payloadStr b payload)])"
  by (simp add: newEvents_def afterRawHandler_trace)

lemma pinCalls_afterRawHandler: "pinCalls s (afterRawHandler b topic payload s) = []"
  by (simp add: pinCalls_def newEvents_afterRawHandler split: option.splits)

lemma handleMessage_in_range:
  assumes "strstr topic ''/cmd/'' = Some cmdPos" and "drop 5 cmdPos \<noteq> []"
    and "0 \<le> parsePin (drop 5 cmdPos)" and "parsePin (drop 5 cmdPos) < 128"
  shows "handleMessage b topic payload s =
           dispatch (parsePin (drop 5 cmdPos)) (payloadStr b payload)
             (afterRawHandler b topic payload s)"
  using assms
  by (simp add: handleMessage_def afterRawHandler_def payloadStr_def Let_def
      VWIRE_MAX_VIRTUAL_PINS_def split: option.splits)

lemma handleMessage_out_of_range:
  assumes "strstr topic ''/cmd/'' = Some cmdPos"
    and "parsePin (drop 5 cmdPos) < 0 \<or> 128 \<le> parsePin (drop 5 cmdPos)"
  shows "handleMessage b topic payload s = afterRawHandler b topic payload s"
  using assms
  by (auto simp: handleMessage_def afterRawHandler_def payloadStr_def Let_def
      VWIRE_MAX_VIRTUAL_PINS_def split: option.splits)

lemma pinCalls_callPinHandler:
  "pinCalls s (callPinHandler h v (afterRawHandler b topic payload s)) =
     (case h of None \<Rightarrow> [] | Some f \<Rightarrow> [PinHandlerCall f v])"
  by (simp add: pinCalls_def newEvents_def callPinHandler_def emit_def afterRawHandler_trace
      split: option.splits)

lemma find_first:
  assumes "i < length xs" and "P (xs ! i)" and "\<forall>j<i. \<not> P (xs ! j)"
  shows "find P xs = Some (xs ! i)"
  using assms by (auto simp: find_Some_iff)

lemma dispatch_explicit:
  assumes "i < length (explicitTable s)"
    and "active (explicitTable s ! i)" and "uint (pin (explicitTable s ! i)) = c"
    and "\<forall>j<i. \<not> (active (explicitTable s ! j) \<and> uint (pin (explicitTable s ! j)) = c)"
  shows "dispatch c v s = callPinHandler (handler (explicitTable s ! i)) v s"
proof -
  have "find (\<lambda>e. active e \<and> uint (pin e) = c) (explicitTable s) = Some (explicitTable s ! i)"
    using assms by (intro find_first) auto
  then show ?thesis by (simp add: dispatch_def)
qed

lemma dispatch_auto:
  assumes "\<forall>e\<in>set (explicitTable s). \<not> (active e \<and> uint (pin e) = c)"
    and "k < length (autoTable s)" and "uint (auto_pin (autoTable s ! k)) = c"
    and "\<forall>j<k. uint (auto_pin (autoTable s ! j)) \<noteq> c"
  shows "dispatch c v s = callPinHandler (auto_handler (autoTable s ! k)) v s"
proof -
  have none: "find (\<lambda>e. active e \<and> uint (pin e) = c) (explicitTable s) = None"
    using assms(1) by (simp add: find_None_iff)
  have "find (\<lambda>e. uint (auto_pin e) = c) (autoTable s) = Some (autoTable s ! k)"
    using assms(2-4) by (intro find_first) auto
  with none show ?thesis by (simp add: dispatch_def)
qed

lemma dispatch_none:
  assumes "\<forall>e\<in>set (explicitTable s). \<not> (active e \<and> uint (pin e) = c)"
    and "\<forall>e\<in>set (autoTable s). uint (auto_pin e) \<noteq> c"
  shows "dispatch c v s = s"
proof -
  have "find (\<lambda>e. active e \<and> uint (pin e) = c) (explicitTable s) = None"
    using assms(1) by (simp add: find_None_iff)
  moreover have "find (\<lambda>e. uint (auto_pin e) = c) (autoTable s) = None"
    using assms(2) by (simp add: find_None_iff)
  ultimately show ?thesis by (simp add: dispatch_def)
qed

lemma pinCalls_dispatch_le:
  "length (pinCalls s (dispatch c v (afterRawHandler b topic payload s))) \<le> 1"
  by (simp add: dispatch_def pinCalls_callPinHandler pinCalls_afterRawHandler
      split: option.splits)

text \<open>
  C8. A message whose topic holds the command marker and whose pin number, as parsed, is
  below 0 or above 127 calls no pin handler and leaves the last error alone; the only call
  it causes is that of the raw-message observer, if one is registered, with the whole topic
  and the payload as copied into the bounded buffer.
\<close>

theorem out_of_range_command:
  assumes "strstr topic ''/cmd/'' = Some cmdPos"
    and "parsePin (drop 5 cmdPos) < 0 \<or> 128 \<le> parsePin (drop 5 cmdPos)"
  shows "pinCalls s (handleMessage b topic payload s) = []
    \<and> lastError (handleMessage b topic payload s) = lastError s
    \<and> newEvents s (handleMessage b topic payload s) =
        (case messageHandler s of
           None \<Rightarrow> []
         | Some f \<Rightarrow> [RawMessageHandlerCall f topic (payloadStr b payload)])
    \<and> handleMessage b topic payload s = afterRawHandler b topic payload s"
  using handleMessage_out_of_range [OF assms]
  by (simp add: pinCalls_afterRawHandler newEvents_afterRawHandler)

lemma strstr_V999: "strstr ''vwire/tok/cmd/V999'' ''/cmd/'' = Some ''/cmd/V999''"
  by simp

lemma parsePin_V999: "parsePin ''V999'' = 999"
  by (simp add: parsePin_def atoi_def isspace_def isdigit_def saturate_long_def)

lemma observed: "messageHandler observed_device = Some 3"
  by (simp add: observed_device_def onMessage_def)

theorem out_of_range_command_witness:
  "strstr ''vwire/tok/cmd/V999'' ''/cmd/'' = Some ''/cmd/V999''
   \<and> (parsePin (drop 5 ''/cmd/V999'') < 0 \<or> 128 \<le> parsePin (drop 5 ''/cmd/V999''))
   \<and> pinCalls observed_device (handleMessage ESP32 ''vwire/tok/cmd/V999'' ''42'' observed_device) = []
   \<and> lastError (handleMessage ESP32 ''vwire/tok/cmd/V999'' ''42'' observed_device) =
       lastError observed_device
   \<and> newEvents observed_device (handleMessage ESP32 ''vwire/tok/cmd/V999'' ''42'' observed_device) =
       [RawMessageHandlerCall 3 ''vwire/tok/cmd/V999'' ''42'']"
proof -
  have a: "strstr ''vwire/tok/cmd/V999'' ''/cmd/'' = Some ''/cmd/V999''"
    by (rule strstr_V999)
  have b: "parsePin (drop 5 ''/cmd/V999'') < 0 \<or> 128 \<le> parsePin (drop 5 ''/cmd/V999'')"
    by (simp add: parsePin_V999)
  have c: "payloadStr ESP32 ''42'' = ''42''"
    by (simp add: payloadStr_def c_str_def)
  note t = out_of_range_command [OF a b, of observed_device ESP32 "''42''"]
  from t have 1: "pinCalls observed_device
      (handleMessage ESP32 ''vwire/tok/cmd/V999'' ''42'' observed_device) = []"
    by blast
  from t have 2: "lastError (handleMessage ESP32 ''vwire/tok/cmd/V999'' ''42'' observed_device) =
      lastError observed_device"
    by blast
  from t have "newEvents observed_device
      (handleMessage ESP32 ''vwire/tok/cmd/V999'' ''42'' observed_device) =
        (case messageHandler observed_device of
           None \<Rightarrow> []
         | Some f \<Rightarrow> [RawMessageHandlerCall f ''vwire/tok/cmd/V999'' (payloadStr ESP32 ''42'')])"
    by blast
  then have 3: "newEvents observed_device
      (handleMessage ESP32 ''vwire/tok/cmd/V999'' ''42'' observed_device) =
        [RawMessageHandlerCall 3 ''vwire/tok/cmd/V999'' ''42'']"
    by (simp add: observed c)
  from a b 1 2 3 show ?thesis by blast
qed

subsection \<open>Dispatch\<close>

lemma order_device_tables:
  "explicitTable order_device = [\<lparr>pin = 7, handler = Some 2, active = True\<rparr>]"
  "autoTable order_device = [\<lparr>auto_pin = 7, auto_handler = Some 4\<rparr>]"
  by code_simp+

lemma auto_device_tables:
  "explicitTable auto_device = [\<lparr>pin = 8, handler = Some 2, active = True\<rparr>]"
  "autoTable auto_device = [\<lparr>auto_pin = 7, auto_handler = Some 4\<rparr>]"
  by code_simp+

lemma null_device_tables:
  "explicitTable null_device = [\<lparr>pin = 7, handler = None, active = True\<rparr>]"
  "autoTable null_device = [\<lparr>auto_pin = 7, auto_handler = Some 4\<rparr>]"
  by code_simp+

lemma device_tables:
  "explicitTable device = []"
  "autoTable device = []"
  by code_simp+



text \<open>
  C2, as amended. For a command on a channel \<open>c\<close> in range: the first active entry of
  the explicit table with channel \<open>c\<close> decides, whatever the declarative table holds; its
  callback is called if it is not null, and nothing else is called. Without such an entry
  the first entry of the declarative table with channel \<open>c\<close> decides in the same way.
  Without a match in either table the message only reaches the raw observer. At most one pin
  handler is ever called.
\<close>

theorem dispatch_precedence:
  assumes "strstr topic ''/cmd/'' = Some cmdPos" and "drop 5 cmdPos \<noteq> []"
    and "parsePin (drop 5 cmdPos) = c" and "0 \<le> c" and "c < 128"
  shows
    "(i < length (explicitTable s)
        \<and> active (explicitTable s ! i) \<and> uint (pin (explicitTable s ! i)) = c
        \<and> (\<forall>j<i. \<not> (active (explicitTable s ! j) \<and> uint (pin (explicitTable s ! j)) = c))
      \<longrightarrow> pinCalls s (handleMessage b topic payload s) =
            (case handler (explicitTable s ! i) of
               None \<Rightarrow> []
             | Some f \<Rightarrow> [PinHandlerCall f (payloadStr b payload)]))
     \<and> ((\<forall>e\<in>set (explicitTable s). \<not> (active e \<and> uint (pin e) = c))
        \<and> k < length (autoTable s) \<and> uint (auto_pin (autoTable s ! k)) = c
        \<and> (\<forall>j<k. uint (auto_pin (autoTable s ! j)) \<noteq> c)
      \<longrightarrow> pinCalls s (handleMessage b topic payload s) =
            (case auto_handler (autoTable s ! k) of
               None \<Rightarrow> []
             | Some f \<Rightarrow> [PinHandlerCall f (payloadStr b payload)]))
     \<and> ((\<forall>e\<in>set (explicitTable s). \<not> (active e \<and> uint (pin e) = c))
        \<and> (\<forall>e\<in>set (autoTable s). uint (auto_pin e) \<noteq> c)
      \<longrightarrow> pinCalls s (handleMessage b topic payload s) = []
          \<and> handleMessage b topic payload s = afterRawHandler b topic payload s)
     \<and> length (pinCalls s (handleMessage b topic payload s)) \<le> 1"
proof -
  let ?s1 = "afterRawHandler b topic payload s"
  let ?v = "payloadStr b payload"
  have hm: "handleMessage b topic payload s = dispatch c ?v ?s1"
    using handleMessage_in_range [of topic cmdPos b payload s] assms by simp
  have explicit: "pinCalls s (handleMessage b topic payload s) =
      (case handler (explicitTable s ! i) of None \<Rightarrow> [] | Some f \<Rightarrow> [PinHandlerCall f ?v])"
    if "i < length (explicitTable s)"
      and "active (explicitTable s ! i)" and "uint (pin (explicitTable s ! i)) = c"
      and "\<forall>j<i. \<not> (active (explicitTable s ! j) \<and> uint (pin (explicitTable s ! j)) = c)"
  proof -
    have "dispatch c ?v ?s1 = callPinHandler (handler (explicitTable ?s1 ! i)) ?v ?s1"
      using that by (intro dispatch_explicit) simp_all
    then show ?thesis
      by (simp add: hm pinCalls_callPinHandler)
  qed
  have declarative: "pinCalls s (handleMessage b topic payload s) =
      (case auto_handler (autoTable s ! k) of None \<Rightarrow> [] | Some f \<Rightarrow> [PinHandlerCall f ?v])"
    if "\<forall>e\<in>set (explicitTable s). \<not> (active e \<and> uint (pin e) = c)"
      and "k < length (autoTable s)" and "uint (auto_pin (autoTable s ! k)) = c"
      and "\<forall>j<k. uint (auto_pin (autoTable s ! j)) \<noteq> c"
  proof -
    have "dispatch c ?v ?s1 = callPinHandler (auto_handler (autoTable ?s1 ! k)) ?v ?s1"
      using that by (intro dispatch_auto) simp_all
    then show ?thesis
      by (simp add: hm pinCalls_callPinHandler)
  qed
  have dropped: "pinCalls s (handleMessage b topic payload s) = []
      \<and> handleMessage b topic payload s = ?s1"
    if "\<forall>e\<in>set (explicitTable s). \<not> (active e \<and> uint (pin e) = c)"
      and "\<forall>e\<in>set (autoTable s). uint (auto_pin e) \<noteq> c"
  proof -
    have "dispatch c ?v ?s1 = ?s1"
      using that by (intro dispatch_none) simp_all
    then show ?thesis
      by (simp add: hm pinCalls_afterRawHandler)
  qed
  have "length (pinCalls s (handleMessage b topic payload s)) \<le> 1"
    unfolding hm by (rule pinCalls_dispatch_le)
  with explicit declarative dropped show ?thesis
    by blast
qed

lemma strstr_V7: "strstr ''vwire/tok/cmd/V7'' ''/cmd/'' = Some ''/cmd/V7''"
  by simp

lemma parsePin_V7: "parsePin ''V7'' = 7"
  by code_simp

lemma payloadStr_42: "payloadStr ESP32 ''42'' = ''42''"
  by code_simp

theorem dispatch_precedence_witness:
  "strstr ''vwire/tok/cmd/V7'' ''/cmd/'' = Some ''/cmd/V7''
   \<and> drop 5 ''/cmd/V7'' \<noteq> [] \<and> parsePin (drop 5 ''/cmd/V7'') = 7
   \<and> explicitTable order_device = [\<lparr>pin = 7, handler = Some 2, active = True\<rparr>]
   \<and> autoTable order_device = [\<lparr>auto_pin = 7, auto_handler = Some 4\<rparr>]
   \<and> pinCalls order_device (handleMessage ESP32 ''vwire/tok/cmd/V7'' ''42'' order_device) =
       [PinHandlerCall 2 ''42'']
   \<and> explicitTable auto_device = [\<lparr>pin = 8, handler = Some 2, active = True\<rparr>]
   \<and> autoTable auto_device = [\<lparr>auto_pin = 7, auto_handler = Some 4\<rparr>]
   \<and> pinCalls auto_device (handleMessage ESP32 ''vwire/tok/cmd/V7'' ''42'' auto_device) =
       [PinHandlerCall 4 ''42'']
   \<and> explicitTable device = [] \<and> autoTable device = []
   \<and> pinCalls device (handleMessage ESP32 ''vwire/tok/cmd/V7'' ''42'' device) = []"
proof -
  have a: "strstr ''vwire/tok/cmd/V7'' ''/cmd/'' = Some ''/cmd/V7''"
    by (rule strstr_V7)
  have b: "drop 5 ''/cmd/V7'' \<noteq> []" by simp
  have c: "parsePin (drop 5 ''/cmd/V7'') = 7" by (simp add: parsePin_V7)
  have r: "(0::int) \<le> 7" "(7::int) < 128" by simp_all
  note t = dispatch_precedence [OF a b c r]
  have h1: "0 < length (explicitTable order_device)
      \<and> active (explicitTable order_device ! 0)
      \<and> uint (pin (explicitTable order_device ! 0)) = 7
      \<and> (\<forall>j<0. \<not> (active (explicitTable order_device ! j)
            \<and> uint (pin (explicitTable order_device ! j)) = 7))"
    by (simp add: order_device_tables)
  from t [of 0 order_device ESP32 "''42''" 0] h1
  have "pinCalls order_device (handleMessage ESP32 ''vwire/tok/cmd/V7'' ''42'' order_device) =
      (case handler (explicitTable order_device ! 0) of
         None \<Rightarrow> []
       | Some f \<Rightarrow> [PinHandlerCall f (payloadStr ESP32 ''42'')])"
    by blast
  then have 1: "pinCalls order_device
      (handleMessage ESP32 ''vwire/tok/cmd/V7'' ''42'' order_device) = [PinHandlerCall 2 ''42'']"
    by (simp add: order_device_tables payloadStr_42)
  have h2: "(\<forall>e\<in>set (explicitTable auto_device). \<not> (active e \<and> uint (pin e) = 7))
      \<and> 0 < length (autoTable auto_device)
      \<and> uint (auto_pin (autoTable auto_device ! 0)) = 7
      \<and> (\<forall>j<0. uint (auto_pin (autoTable auto_device ! j)) \<noteq> 7)"
    by (simp add: auto_device_tables)
  from t [of 0 auto_device ESP32 "''42''" 0] h2
  have "pinCalls auto_device (handleMessage ESP32 ''vwire/tok/cmd/V7'' ''42'' auto_device) =
      (case auto_handler (autoTable auto_device ! 0) of
         None \<Rightarrow> []
       | Some f \<Rightarrow> [PinHandlerCall f (payloadStr ESP32 ''42'')])"
    by blast
  then have 2: "pinCalls auto_device
      (handleMessage ESP32 ''vwire/tok/cmd/V7'' ''42'' auto_device) = [PinHandlerCall 4 ''42'']"
    by (simp add: auto_device_tables payloadStr_42)
  have h3: "(\<forall>e\<in>set (explicitTable device). \<not> (active e \<and> uint (pin e) = 7))
      \<and> (\<forall>e\<in>set (autoTable device). uint (auto_pin e) \<noteq> 7)"
    by (simp add: device_tables)
  from t [of 0 device ESP32 "''42''" 0] h3
  have 3: "pinCalls device (handleMessage ESP32 ''vwire/tok/cmd/V7'' ''42'' device) = []"
    by blast
  have tabs: "explicitTable order_device = [\<lparr>pin = 7, handler = Some 2, active = True\<rparr>]
      \<and> autoTable order_device = [\<lparr>auto_pin = 7, auto_handler = Some 4\<rparr>]
      \<and> explicitTable auto_device = [\<lparr>pin = 8, handler = Some 2, active = True\<rparr>]
      \<and> autoTable auto_device = [\<lparr>auto_pin = 7, auto_handler = Some 4\<rparr>]
      \<and> explicitTable device = [] \<and> autoTable device = []"
    by (simp add: order_device_tables auto_device_tables device_tables)
  from a b c 1 2 3 tabs show ?thesis
    by blast
qed

text \<open>
  C2 as stated fails: with \<open>nullptr\<close> registered explicitly for channel 7 and a declarative
  handler for channel 7, a command on channel 7 matches in both tables and calls no handler.
\<close>

theorem null_callback_runs_nothing:
  "explicitTable null_device = [\<lparr>pin = 7, handler = None, active = True\<rparr>]
   \<and> autoTable null_device = [\<lparr>auto_pin = 7, auto_handler = Some 4\<rparr>]
   \<and> parsePin ''V7'' = 7
   \<and> pinCalls null_device (handleMessage ESP32 ''vwire/tok/cmd/V7'' ''42'' null_device) = []"
proof -
  have "pinCalls null_device (handleMessage ESP32 ''vwire/tok/cmd/V7'' ''42'' null_device) = []"
    by code_simp
  then show ?thesis
    by (simp add: null_device_tables parsePin_V7)
qed

subsection \<open>Channel text without a number\<close>







subsection \<open>Heartbeat schedule\<close>

lemma same_frame: "\<exists>tr. s = s\<lparr>trace := tr\<rparr>"
  by (rule exI [of _ "trace s"]) simp

lemma callPinHandler_frame: "\<exists>tr. callPinHandler h v s = s\<lparr>trace := tr\<rparr>"
  by (cases h) (auto simp: callPinHandler_def emit_def same_frame)

lemma dispatch_frame: "\<exists>tr. dispatch p v s = s\<lparr>trace := tr\<rparr>"
  by (simp add: dispatch_def callPinHandler_frame same_frame split: option.splits)

lemma afterRawHandler_frame: "\<exists>tr. afterRawHandler b topic payload s = s\<lparr>trace := tr\<rparr>"
proof (cases "messageHandler s")
  case None
  then have "afterRawHandler b topic payload s = s\<lparr>trace := trace s\<rparr>"
    by (simp add: afterRawHandler_def)
  then show ?thesis ..
next
  case (Some f)
  then show ?thesis
    by (auto simp: afterRawHandler_def emit_def)
qed

lemma handleMessage_cases:
  "handleMessage b topic payload s = afterRawHandler b topic payload s
   \<or> (\<exists>p. handleMessage b topic payload s =
           dispatch p (payloadStr b payload) (afterRawHandler b topic payload s))"
proof (cases "strstr topic ''/cmd/''")
  case None
  then show ?thesis
    by (simp add: handleMessage_def afterRawHandler_def payloadStr_def Let_def
        split: option.splits)
next
  case (Some cmdPos)
  show ?thesis
  proof (cases "drop 5 cmdPos \<noteq> [] \<and> 0 \<le> parsePin (drop 5 cmdPos)
      \<and> parsePin (drop 5 cmdPos) < 128")
    case True
    with Some have "handleMessage b topic payload s =
        dispatch (parsePin (drop 5 cmdPos)) (payloadStr b payload)
          (afterRawHandler b topic payload s)"
      by (intro handleMessage_in_range) simp_all
    then show ?thesis by blast
  next
    case False
    with Some have "handleMessage b topic payload s = afterRawHandler b topic payload s"
      by (auto simp: handleMessage_def afterRawHandler_def payloadStr_def Let_def
          VWIRE_MAX_VIRTUAL_PINS_def split: option.splits)
    then show ?thesis ..
  qed
qed

lemma handleMessage_frame: "\<exists>tr. handleMessage b topic payload s = s\<lparr>trace := tr\<rparr>"
proof -
  obtain tr1 where 1: "afterRawHandler b topic payload s = s\<lparr>trace := tr1\<rparr>"
    using afterRawHandler_frame by blast
  from handleMessage_cases [of b topic payload s] show ?thesis
  proof
    assume "handleMessage b topic payload s = afterRawHandler b topic payload s"
    with 1 show ?thesis by auto
  next
    assume "\<exists>p. handleMessage b topic payload s =
           dispatch p (payloadStr b payload) (afterRawHandler b topic payload s)"
    then obtain p where 2: "handleMessage b topic payload s =
           dispatch p (payloadStr b payload) (afterRawHandler b topic payload s)" ..
    obtain tr2 where "dispatch p (payloadStr b payload) (afterRawHandler b topic payload s) =
        (afterRawHandler b topic payload s)\<lparr>trace := tr2\<rparr>"
      using dispatch_frame by blast
    with 1 2 have "handleMessage b topic payload s = s\<lparr>trace := tr2\<rparr>" by simp
    then show ?thesis ..
  qed
qed

lemma callPinHandler_publishes:
  "filter (isPublishTo tp) (trace (callPinHandler h v s)) = filter (isPublishTo tp) (trace s)"
  by (cases h) (simp_all add: callPinHandler_def emit_def)

lemma dispatch_publishes:
  "filter (isPublishTo tp) (trace (dispatch p v s)) = filter (isPublishTo tp) (trace s)"
  by (simp add: dispatch_def callPinHandler_publishes split: option.splits)

lemma afterRawHandler_publishes:
  "filter (isPublishTo tp) (trace (afterRawHandler b topic payload s)) =
   filter (isPublishTo tp) (trace s)"
  by (simp add: afterRawHandler_trace split: option.splits)

lemma handleMessage_publishes:
  "filter (isPublishTo tp) (trace (handleMessage b topic payload s)) =
   filter (isPublishTo tp) (trace s)"
  using handleMessage_cases [of b topic payload s]
  by (auto simp: dispatch_publishes afterRawHandler_publishes)

lemma mqtt_loop_frame: "\<exists>tr. mqtt_loop b ms s = s\<lparr>trace := tr\<rparr>"
proof (induction ms arbitrary: s)
  case Nil
  have "mqtt_loop b [] s = s\<lparr>trace := trace s\<rparr>" by simp
  then show ?case ..
next
  case (Cons m ms)
  obtain topic payload where m: "m = (topic, payload)" by (cases m)
  obtain tr1 where 1: "handleMessage b topic payload s = s\<lparr>trace := tr1\<rparr>"
    using handleMessage_frame by blast
  obtain tr2 where "mqtt_loop b ms (s\<lparr>trace := tr1\<rparr>) = s\<lparr>trace := tr1\<rparr>\<lparr>trace := tr2\<rparr>"
    using Cons.IH by blast
  with 1 have "mqtt_loop b (m # ms) s = s\<lparr>trace := tr2\<rparr>"
    by (simp add: m)
  then show ?case ..
qed

lemma mqtt_loop_publishes:
  "filter (isPublishTo tp) (trace (mqtt_loop b ms s)) = filter (isPublishTo tp) (trace s)"
proof (induction ms arbitrary: s)
  case Nil
  show ?case by simp
next
  case (Cons m ms)
  obtain topic payload where m: "m = (topic, payload)" by (cases m)
  show ?case
    by (simp add: m Cons.IH handleMessage_publishes)
qed

lemma mqtt_loop_fields:
  "settings (mqtt_loop b ms s) = settings s"
  "state (mqtt_loop b ms s) = state s"
  "lastHeartbeat (mqtt_loop b ms s) = lastHeartbeat s"
  "deviceId (mqtt_loop b ms s) = deviceId s"
proof -
  obtain tr where "mqtt_loop b ms s = s\<lparr>trace := tr\<rparr>"
    using mqtt_loop_frame by blast
  then show "settings (mqtt_loop b ms s) = settings s"
    and "state (mqtt_loop b ms s) = state s"
    and "lastHeartbeat (mqtt_loop b ms s) = lastHeartbeat s"
    and "deviceId (mqtt_loop b ms s) = deviceId s"
    by simp_all
qed

lemma mqtt_loop_heartbeats: "heartbeats (mqtt_loop b ms s) = heartbeats s"
  by (simp add: heartbeats_def heartbeatTopic_def mqtt_loop_fields mqtt_loop_publishes)

lemma run_quiet:
  assumes "mqtt_connected e"
    and "millis e - lastHeartbeat s < heartbeatInterval (settings s)"
  shows "run b e s = mqtt_loop b (inbound e) s"
  using assms by (simp add: run_def Let_def mqtt_loop_fields not_le)

lemma run_heartbeat:
  assumes "mqtt_connected e" and "hb_connected e" and "state s = VWIRE_STATE_CONNECTED"
    and "heartbeatInterval (settings s) \<le> millis e - lastHeartbeat s"
  shows "run b e s =
     emit (MqttPublish (heartbeatTopic s)
             (heartbeatBuffer e ((mqtt_loop b (inbound e) s)\<lparr>lastHeartbeat := millis e\<rparr>))
             False)
       ((mqtt_loop b (inbound e) s)\<lparr>lastHeartbeat := millis e\<rparr>)"
  using assms
  by (simp add: run_def Let_def mqtt_loop_fields sendHeartbeat_def connected_def
      heartbeatTopic_def)

lemma polls_quiet:
  assumes "\<forall>e\<in>set es. mqtt_connected e
             \<and> millis e - lastHeartbeat s < heartbeatInterval (settings s)"
  shows "heartbeats (polls b es s) = heartbeats s
     \<and> lastHeartbeat (polls b es s) = lastHeartbeat s
     \<and> settings (polls b es s) = settings s
     \<and> state (polls b es s) = state s"
  using assms
proof (induction es arbitrary: s)
  case Nil
  show ?case by simp
next
  case (Cons e es)
  have step: "run b e s = mqtt_loop b (inbound e) s"
    using Cons.prems by (intro run_quiet) simp_all
  have "\<forall>e'\<in>set es. mqtt_connected e'
      \<and> millis e' - lastHeartbeat (run b e s) < heartbeatInterval (settings (run b e s))"
    using Cons.prems by (simp add: step mqtt_loop_fields)
  from Cons.IH [OF this] show ?case
    by (simp add: step mqtt_loop_fields mqtt_loop_heartbeats)
qed

text \<open>
  C5. Take a session in state \<open>Connected\<close> and any sequence of polls in which the
  transport reports connected. As long as the clock of the poll is less than the heartbeat
  interval past the last-heartbeat timestamp (in the 32-bit arithmetic of \<open>millis()\<close>),
  no heartbeat is published and the timestamp stays, however many polls there are and
  whatever messages they deliver. The first poll at or past the interval publishes exactly
  one heartbeat and sets the timestamp to its own clock value; state and settings are as
  before, so the same holds again from there.
\<close>

theorem heartbeat_schedule:
  assumes "state s = VWIRE_STATE_CONNECTED"
    and "\<forall>e\<in>set es. mqtt_connected e
           \<and> millis e - lastHeartbeat s < heartbeatInterval (settings s)"
    and "mqtt_connected e'" and "hb_connected e'"
    and "heartbeatInterval (settings s) \<le> millis e' - lastHeartbeat s"
  shows "heartbeats (polls b es s) = heartbeats s
     \<and> lastHeartbeat (polls b es s) = lastHeartbeat s
     \<and> heartbeats (run b e' (polls b es s)) = heartbeats s + 1
     \<and> lastHeartbeat (run b e' (polls b es s)) = millis e'
     \<and> state (run b e' (polls b es s)) = VWIRE_STATE_CONNECTED
     \<and> settings (run b e' (polls b es s)) = settings s"
proof -
  let ?s = "polls b es s"
  note q = polls_quiet [OF assms(2), of b]
  have "state ?s = VWIRE_STATE_CONNECTED"
    and "heartbeatInterval (settings ?s) \<le> millis e' - lastHeartbeat ?s"
    using q assms(1,5) by simp_all
  from run_heartbeat [OF assms(3,4) this, of b]
  have r: "run b e' ?s =
      emit (MqttPublish (heartbeatTopic ?s)
              (heartbeatBuffer e' ((mqtt_loop b (inbound e') ?s)\<lparr>lastHeartbeat := millis e'\<rparr>))
              False)
        ((mqtt_loop b (inbound e') ?s)\<lparr>lastHeartbeat := millis e'\<rparr>)" .
  have "heartbeats (run b e' ?s) = heartbeats (mqtt_loop b (inbound e') ?s) + 1"
    unfolding r
    by (simp add: heartbeats_def heartbeatTopic_def emit_def mqtt_loop_fields)
  then have "heartbeats (run b e' ?s) = heartbeats s + 1"
    using q by (simp add: mqtt_loop_heartbeats)
  moreover have "lastHeartbeat (run b e' ?s) = millis e'"
    and "state (run b e' ?s) = VWIRE_STATE_CONNECTED"
    and "settings (run b e' ?s) = settings s"
    unfolding r using q assms(1) by (simp_all add: emit_def mqtt_loop_fields)
  ultimately show ?thesis
    using q by simp
qed

lemma online_device_fields:
  "state online_device = VWIRE_STATE_CONNECTED"
  "lastHeartbeat online_device = 0"
  "heartbeatInterval (settings online_device) = 30000"
  "heartbeats online_device = 0"
  by code_simp+

theorem heartbeat_schedule_witness:
  "state online_device = VWIRE_STATE_CONNECTED
   \<and> mqtt_connected (tick 1000 [])
   \<and> millis (tick 1000 []) - lastHeartbeat online_device
       < heartbeatInterval (settings online_device)
   \<and> mqtt_connected (tick 29999 [(''vwire/tok/cmd/V7'', ''1'')])
   \<and> millis (tick 29999 [(''vwire/tok/cmd/V7'', ''1'')]) - lastHeartbeat online_device
       < heartbeatInterval (settings online_device)
   \<and> mqtt_connected (tick 30000 []) \<and> hb_connected (tick 30000 [])
   \<and> heartbeatInterval (settings online_device) \<le> millis (tick 30000 []) - lastHeartbeat online_device
   \<and> heartbeats (polls ESP32 [tick 1000 [], tick 29999 [(''vwire/tok/cmd/V7'', ''1'')]]
        online_device) = 0
   \<and> heartbeats (run ESP32 (tick 30000 [])
        (polls ESP32 [tick 1000 [], tick 29999 [(''vwire/tok/cmd/V7'', ''1'')]] online_device)) = 1
   \<and> lastHeartbeat (run ESP32 (tick 30000 [])
        (polls ESP32 [tick 1000 [], tick 29999 [(''vwire/tok/cmd/V7'', ''1'')]] online_device)) = 30000"
proof -
  let ?es = "[tick 1000 [], tick 29999 [(''vwire/tok/cmd/V7'', ''1'')]]"
  have a: "state online_device = VWIRE_STATE_CONNECTED"
    by (rule online_device_fields)
  have b: "\<forall>e\<in>set ?es. mqtt_connected e
       \<and> millis e - lastHeartbeat online_device < heartbeatInterval (settings online_device)"
    by (simp add: online_device_fields tick_def)
  have c: "mqtt_connected (tick 30000 [])" and d: "hb_connected (tick 30000 [])"
    by (simp_all add: tick_def)
  have e: "heartbeatInterval (settings online_device)
       \<le> millis (tick 30000 []) - lastHeartbeat online_device"
    by (simp add: online_device_fields tick_def)
  note t = heartbeat_schedule [OF a b c d e, of ESP32]
  have m: "millis (tick 30000 []) = 30000"
    by (simp add: tick_def)
  from t have 1: "heartbeats (polls ESP32 ?es online_device) = 0"
    by (simp add: online_device_fields)
  from t have 2: "heartbeats (run ESP32 (tick 30000 []) (polls ESP32 ?es online_device)) = 1"
    by (simp add: online_device_fields)
  from t have 3: "lastHeartbeat (run ESP32 (tick 30000 []) (polls ESP32 ?es online_device)) = 30000"
    by (simp add: m)
  have b': "mqtt_connected (tick 1000 [])
      \<and> millis (tick 1000 []) - lastHeartbeat online_device
          < heartbeatInterval (settings online_device)
      \<and> mqtt_connected (tick 29999 [(''vwire/tok/cmd/V7'', ''1'')])
      \<and> millis (tick 29999 [(''vwire/tok/cmd/V7'', ''1'')]) - lastHeartbeat online_device
          < heartbeatInterval (settings online_device)"
    using b by simp
  from a b' c d e 1 2 3 show ?thesis
    by blast
qed

subsection \<open>Reconnect schedule\<close>

lemma callConnectionHandler_fields:
  "settings (callConnectionHandler h s) = settings s"
  "state (callConnectionHandler h s) = state s"
  "lastReconnectAttempt (callConnectionHandler h s) = lastReconnectAttempt s"
  "disconnectHandler (callConnectionHandler h s) = disconnectHandler s"
  "connectHandler (callConnectionHandler h s) = connectHandler s"
  "vwireAutoConnectHandler (callConnectionHandler h s) = vwireAutoConnectHandler s"
  "vwireAutoDisconnectHandler (callConnectionHandler h s) = vwireAutoDisconnectHandler s"
  "filter isConnect (trace (callConnectionHandler h s)) = filter isConnect (trace s)"
  by (cases h; simp add: callConnectionHandler_def emit_def)+

lemma detectDisconnect_fields:
  "settings (detectDisconnect s) = settings s"
  "lastReconnectAttempt (detectDisconnect s) = lastReconnectAttempt s"
  "connectCalls (detectDisconnect s) = connectCalls s"
  "state (detectDisconnect s) \<noteq> VWIRE_STATE_CONNECTED"
  by (simp_all add: detectDisconnect_def Let_def callConnectionHandler_fields connectCalls_def)

lemma detectDisconnect_idem: "detectDisconnect (detectDisconnect s) = detectDisconnect s"
  using detectDisconnect_fields(4) [of s] by (simp add: detectDisconnect_def [of "detectDisconnect s"])

lemma connectMQTT_fields:
  "settings (snd (connectMQTT ok t s)) = settings s"
  "lastReconnectAttempt (snd (connectMQTT ok t s)) = lastReconnectAttempt s"
  by (simp_all add: connectMQTT_def Let_def setError_def emit_def callConnectionHandler_fields)

lemma connectMQTT_connectCalls:
  "connectCalls (snd (connectMQTT ok t s)) =
     connectCalls s + (if authToken (settings s) = [] then 0 else 1)"
  by (simp add: connectMQTT_def Let_def setError_def emit_def callConnectionHandler_fields
      connectCalls_def)

lemma run_wait:
  assumes "\<not> mqtt_connected e" and "wifi_connected e"
    and "millis e - lastReconnectAttempt s < reconnectInterval (settings s)"
  shows "run b e s = detectDisconnect s"
  using assms by (simp add: run_def Let_def detectDisconnect_fields not_le)

lemma run_attempt:
  assumes "\<not> mqtt_connected e" and "wifi_connected e" and "autoReconnect (settings s)"
    and "reconnectInterval (settings s) \<le> millis e - lastReconnectAttempt s"
  shows "run b e s =
     snd (connectMQTT (connect_ok e) (connect_millis e)
            ((detectDisconnect s)\<lparr>lastReconnectAttempt := millis e\<rparr>))"
  using assms by (simp add: run_def Let_def detectDisconnect_fields)

lemma polls_wait:
  assumes "\<forall>e\<in>set es. \<not> mqtt_connected e \<and> wifi_connected e
             \<and> millis e - lastReconnectAttempt s < reconnectInterval (settings s)"
  shows "polls b es s = (if es = [] then s else detectDisconnect s)"
  using assms
proof (induction es arbitrary: s)
  case Nil
  show ?case by simp
next
  case (Cons e es)
  have step: "run b e s = detectDisconnect s"
    using Cons.prems by (intro run_wait) simp_all
  have "\<forall>e'\<in>set es. \<not> mqtt_connected e' \<and> wifi_connected e'
      \<and> millis e' - lastReconnectAttempt (detectDisconnect s)
          < reconnectInterval (settings (detectDisconnect s))"
    using Cons.prems by (simp add: detectDisconnect_fields)
  from Cons.IH [OF this] show ?case
    by (simp add: step detectDisconnect_idem)
qed

text \<open>
  C6. Take a device with auto-reconnect enabled and any sequence of polls in which the
  transport reports disconnected and the network is joined. As long as the clock of the
  poll is less than the reconnect interval past the last-attempt timestamp, the polls do
  nothing but notice the lost session once: no join attempt is made and the timestamp
  stays, however many polls there are. The first poll at or past the interval sets the
  timestamp to its own clock value and then calls \<open>_connectMQTT\<close> once, which with a
  token is one session-connect on the transport. The timestamp and the settings after it do
  not depend on how the attempt ends, so the next interval runs from this attempt.
\<close>

theorem reconnect_schedule:
  assumes "autoReconnect (settings s)"
    and "\<forall>e\<in>set es. \<not> mqtt_connected e \<and> wifi_connected e
           \<and> millis e - lastReconnectAttempt s < reconnectInterval (settings s)"
    and "\<not> mqtt_connected e'" and "wifi_connected e'"
    and "reconnectInterval (settings s) \<le> millis e' - lastReconnectAttempt s"
  shows "polls b es s = (if es = [] then s else detectDisconnect s)
     \<and> connectCalls (polls b es s) = connectCalls s
     \<and> lastReconnectAttempt (polls b es s) = lastReconnectAttempt s
     \<and> run b e' (polls b es s) =
         snd (connectMQTT (connect_ok e') (connect_millis e')
                ((detectDisconnect s)\<lparr>lastReconnectAttempt := millis e'\<rparr>))
     \<and> connectCalls (run b e' (polls b es s)) =
         connectCalls s + (if authToken (settings s) = [] then 0 else 1)
     \<and> lastReconnectAttempt (run b e' (polls b es s)) = millis e'
     \<and> settings (run b e' (polls b es s)) = settings s"
proof -
  let ?s = "polls b es s"
  note w = polls_wait [OF assms(2), of b]
  have f: "settings ?s = settings s" "lastReconnectAttempt ?s = lastReconnectAttempt s"
    "connectCalls ?s = connectCalls s" "detectDisconnect ?s = detectDisconnect s"
    by (simp_all add: w detectDisconnect_fields detectDisconnect_idem)
  have "autoReconnect (settings ?s)"
    and "reconnectInterval (settings ?s) \<le> millis e' - lastReconnectAttempt ?s"
    using assms(1,5) by (simp_all add: f)
  from run_attempt [OF assms(3,4) this, of b]
  have r: "run b e' ?s =
      snd (connectMQTT (connect_ok e') (connect_millis e')
             ((detectDisconnect s)\<lparr>lastReconnectAttempt := millis e'\<rparr>))"
    by (simp add: f)
  have "connectCalls ((detectDisconnect s)\<lparr>lastReconnectAttempt := millis e'\<rparr>) = connectCalls s"
    using detectDisconnect_fields(3) [of s] by (simp add: connectCalls_def)
  then have c: "connectCalls (run b e' ?s) =
      connectCalls s + (if authToken (settings s) = [] then 0 else 1)"
    by (simp add: r connectMQTT_connectCalls detectDisconnect_fields)
  have l: "lastReconnectAttempt (run b e' ?s) = millis e'"
    and st: "settings (run b e' ?s) = settings s"
    by (simp_all add: r connectMQTT_fields detectDisconnect_fields)
  from w f r c l st show ?thesis
    by simp
qed

lemma online_device_reconnect_fields:
  "autoReconnect (settings online_device)"
  "lastReconnectAttempt online_device = 0"
  "reconnectInterval (settings online_device) = 5000"
  "connectCalls online_device = 1"
  "authToken (settings online_device) = ''tok''"
  by code_simp+

theorem reconnect_schedule_witness:
  "autoReconnect (settings online_device)
   \<and> \<not> mqtt_connected (outage 1000 False) \<and> wifi_connected (outage 1000 False)
   \<and> millis (outage 1000 False) - lastReconnectAttempt online_device
       < reconnectInterval (settings online_device)
   \<and> \<not> mqtt_connected (outage 4999 False) \<and> wifi_connected (outage 4999 False)
   \<and> millis (outage 4999 False) - lastReconnectAttempt online_device
       < reconnectInterval (settings online_device)
   \<and> \<not> mqtt_connected (outage 5000 False) \<and> wifi_connected (outage 5000 False)
   \<and> reconnectInterval (settings online_device)
       \<le> millis (outage 5000 False) - lastReconnectAttempt online_device
   \<and> connectCalls (polls ESP32 [outage 1000 False, outage 4999 False] online_device) = 1
   \<and> connectCalls (run ESP32 (outage 5000 False)
        (polls ESP32 [outage 1000 False, outage 4999 False] online_device)) = 2
   \<and> lastReconnectAttempt (run ESP32 (outage 5000 False)
        (polls ESP32 [outage 1000 False, outage 4999 False] online_device)) = 5000"
proof -
  let ?es = "[outage 1000 False, outage 4999 False]"
  have a: "autoReconnect (settings online_device)"
    by (rule online_device_reconnect_fields)
  have b: "\<forall>e\<in>set ?es. \<not> mqtt_connected e \<and> wifi_connected e
       \<and> millis e - lastReconnectAttempt online_device
           < reconnectInterval (settings online_device)"
    by (simp add: online_device_reconnect_fields outage_def)
  have c: "\<not> mqtt_connected (outage 5000 False)" and d: "wifi_connected (outage 5000 False)"
    by (simp_all add: outage_def)
  have e: "reconnectInterval (settings online_device)
       \<le> millis (outage 5000 False) - lastReconnectAttempt online_device"
    by (simp add: online_device_reconnect_fields outage_def)
  note t = reconnect_schedule [OF a b c d e, of ESP32]
  have m: "millis (outage 5000 False) = 5000"
    by (simp add: outage_def)
  from t have "connectCalls (polls ESP32 ?es online_device) = connectCalls online_device"
    by blast
  then have 1: "connectCalls (polls ESP32 ?es online_device) = 1"
    by (simp add: online_device_reconnect_fields)
  from t have "connectCalls (run ESP32 (outage 5000 False) (polls ESP32 ?es online_device)) =
      connectCalls online_device + (if authToken (settings online_device) = [] then 0 else 1)"
    by blast
  then have 2: "connectCalls (run ESP32 (outage 5000 False)
      (polls ESP32 ?es online_device)) = 2"
    by (simp add: online_device_reconnect_fields)
  from t have "lastReconnectAttempt (run ESP32 (outage 5000 False)
      (polls ESP32 ?es online_device)) = millis (outage 5000 False)"
    by blast
  then have 3: "lastReconnectAttempt (run ESP32 (outage 5000 False)
      (polls ESP32 ?es online_device)) = 5000"
    by (simp add: m)
  have b': "\<not> mqtt_connected (outage 1000 False) \<and> wifi_connected (outage 1000 False)
      \<and> millis (outage 1000 False) - lastReconnectAttempt online_device
          < reconnectInterval (settings online_device)
      \<and> \<not> mqtt_connected (outage 4999 False) \<and> wifi_connected (outage 4999 False)
      \<and> millis (outage 4999 False) - lastReconnectAttempt online_device
          < reconnectInterval (settings online_device)"
    using b by simp
  from a b' c d e 1 2 3 show ?thesis
    by blast
qed

end
